theory Spec2Isabelle
  imports Complex_Main
begin

section \<open>The data model (types.ts)\<close>

text \<open>
  JavaScript numbers are IEEE doubles. The engine computes on integer values, and they
  are modelled as mathematical integers: integer arithmetic is the arithmetic of doubles
  as long as every value stays within \<open>2 ^ 53\<close> in magnitude. Beyond that a double sum is
  rounded, and \<open>round_double\<close> below is that rounding; it is applied where the code
  adds to a scale degree that the caller chooses freely (\<open>getNoteLetter\<close>) and where a
  numeral of any length is read (\<open>parseInt\<close>). The values that are not integers and can
  arise from well-typed input are those \<open>parseInt\<close> yields, NaN on a string without
  digits and an infinity on a numeral beyond the range of doubles; the type \<open>number\<close>
  carries them, and it is used wherever such a value can flow (parsed degrees and
  resolved pitches). A string is the list of its code units, each below 256.
\<close>

datatype number = NaN | PosInfinity | NegInfinity | Fin int

datatype Voice = Soprano | Alto | Tenor | Bass

datatype VoicingDegree = DNum int | DStr string

type_synonym Voicing = "VoicingDegree list"

datatype KeySignature =
  Key_C | Key_G | Key_D | Key_A | Key_E | Key_B | Key_Fsharp
  | Key_F | Key_Bb | Key_Eb | Key_Ab | Key_Db | Key_Gb

datatype Mode = Major | Minor

type_synonym Pitch = int

type_synonym VoicingCategory = string

section \<open>Pitch calculation (pitchCalculation.ts)\<close>

text \<open>
  The note letters are the one-character strings \<^verbatim>\<open>'C'\<close> .. \<^verbatim>\<open>'B'\<close>; every
  letter the engine handles is read out of \<open>NOTE_LETTERS\<close>, so they form a datatype.
\<close>

datatype NoteLetter = LC | LD | LE | LF | LG | LA | LB

definition NOTE_LETTERS :: "NoteLetter list" where
  "NOTE_LETTERS = [LC, LD, LE, LF, LG, LA, LB]"

fun NATURAL_SEMITONES :: "NoteLetter \<Rightarrow> int" where
  "NATURAL_SEMITONES LC = 0"
| "NATURAL_SEMITONES LD = 2"
| "NATURAL_SEMITONES LE = 4"
| "NATURAL_SEMITONES LF = 5"
| "NATURAL_SEMITONES LG = 7"
| "NATURAL_SEMITONES LA = 9"
| "NATURAL_SEMITONES LB = 11"

fun KEY_ACCIDENTALS :: "KeySignature \<Rightarrow> (NoteLetter \<times> int) list" where
  "KEY_ACCIDENTALS Key_C = []"
| "KEY_ACCIDENTALS Key_G = [(LF, 1)]"
| "KEY_ACCIDENTALS Key_D = [(LF, 1), (LC, 1)]"
| "KEY_ACCIDENTALS Key_A = [(LF, 1), (LC, 1), (LG, 1)]"
| "KEY_ACCIDENTALS Key_E = [(LF, 1), (LC, 1), (LG, 1), (LD, 1)]"
| "KEY_ACCIDENTALS Key_B = [(LF, 1), (LC, 1), (LG, 1), (LD, 1), (LA, 1)]"
| "KEY_ACCIDENTALS Key_Fsharp = [(LF, 1), (LC, 1), (LG, 1), (LD, 1), (LA, 1), (LE, 1)]"
| "KEY_ACCIDENTALS Key_F = [(LB, -1)]"
| "KEY_ACCIDENTALS Key_Bb = [(LB, -1), (LE, -1)]"
| "KEY_ACCIDENTALS Key_Eb = [(LB, -1), (LE, -1), (LA, -1)]"
| "KEY_ACCIDENTALS Key_Ab = [(LB, -1), (LE, -1), (LA, -1), (LD, -1)]"
| "KEY_ACCIDENTALS Key_Db = [(LB, -1), (LE, -1), (LA, -1), (LD, -1), (LG, -1)]"
| "KEY_ACCIDENTALS Key_Gb = [(LB, -1), (LE, -1), (LA, -1), (LD, -1), (LG, -1), (LC, -1)]"

text \<open>\<^verbatim>\<open>KEY_ACCIDENTALS[keySignature][noteLetter] || 0\<close>: a missing entry is
  \<^verbatim>\<open>undefined\<close>, and \<^verbatim>\<open>||\<close> replaces every falsy value by 0.\<close>

definition accidentalOf :: "KeySignature \<Rightarrow> NoteLetter \<Rightarrow> int" where
  "accidentalOf keySignature noteLetter =
     (case map_of (KEY_ACCIDENTALS keySignature) noteLetter of
        None \<Rightarrow> 0
      | Some v \<Rightarrow> (if v = 0 then 0 else v))"

text \<open>\<^verbatim>\<open>keySignature[0]\<close>: the first character of the key's name.\<close>

fun key_name :: "KeySignature \<Rightarrow> string" where
  "key_name Key_C = ''C''"
| "key_name Key_G = ''G''"
| "key_name Key_D = ''D''"
| "key_name Key_A = ''A''"
| "key_name Key_E = ''E''"
| "key_name Key_B = ''B''"
| "key_name Key_Fsharp = ''F#''"
| "key_name Key_F = ''F''"
| "key_name Key_Bb = ''Bb''"
| "key_name Key_Eb = ''Eb''"
| "key_name Key_Ab = ''Ab''"
| "key_name Key_Db = ''Db''"
| "key_name Key_Gb = ''Gb''"

fun letter_name :: "NoteLetter \<Rightarrow> char" where
  "letter_name LC = CHR ''C''"
| "letter_name LD = CHR ''D''"
| "letter_name LE = CHR ''E''"
| "letter_name LF = CHR ''F''"
| "letter_name LG = CHR ''G''"
| "letter_name LA = CHR ''A''"
| "letter_name LB = CHR ''B''"

text \<open>\<^verbatim>\<open>Array.prototype.indexOf\<close>: the first index holding the value, or -1.\<close>

fun indexOf :: "'a list \<Rightarrow> 'a \<Rightarrow> int" where
  "indexOf [] x = -1"
| "indexOf (y # ys) x =
     (if y = x then 0 else (let i = indexOf ys x in if i < 0 then -1 else i + 1))"

text \<open>The remainder operator \<^verbatim>\<open>%\<close> of JavaScript truncates towards zero: the
  result has the sign of the dividend.\<close>

definition js_rem :: "int \<Rightarrow> int \<Rightarrow> int" where
  "js_rem a b = a - b * (if (a < 0) = (b < 0) then \<bar>a\<bar> div \<bar>b\<bar> else - (\<bar>a\<bar> div \<bar>b\<bar>))"

text \<open>
  The double nearest to an integer, ties to the even significand: an integer of at most
  53 bits (\<open>bit_length\<close> counts them) is a double; of a longer one the bits below the
  leading 53 are rounded away.
  The exponent is not bounded here: a sum of a double and a small integer never leaves
  the range of doubles, and \<open>parseInt\<close> tests the range itself.
\<close>

function bit_length :: "int \<Rightarrow> int" where
  "bit_length x = (if x \<le> 0 then 0 else 1 + bit_length (x div 2))"
  by pat_completeness auto
termination
  by (relation "measure nat") auto

declare bit_length.simps [simp del]

definition round_double :: "int \<Rightarrow> int" where
  "round_double x =
     (if \<bar>x\<bar> \<le> 2 ^ 53 then x
      else
        (let e = nat (bit_length \<bar>x\<bar> - 53);
             q = 2 ^ e;
             m = \<bar>x\<bar> div q;
             r = \<bar>x\<bar> mod q;
             m1 = (if 2 * r > q \<or> (2 * r = q \<and> odd m) then m + 1 else m)
         in sgn x * (m1 * q)))"

text \<open>
  \<^verbatim>\<open>parseInt(string)\<close> without a radix, after ECMAScript: leading white space is
  skipped (of the code units below 256, the six ASCII ones and the no-break space 0xA0),
  one sign is read, a prefix \<^verbatim>\<open>0x\<close> or \<^verbatim>\<open>0X\<close> selects radix 16
  (radix 10 otherwise), the longest run of digits of that radix is the numeral, and
  the result is NaN when that run is empty. The numeral's value is rounded to a double
  and is an infinity from \<open>2 ^ 1024\<close> on. (ECMAScript lets an implementation read the
  decimal digits after the 20th as zeros; the digits are read as they are here.)
\<close>

definition isWhiteSpace :: "char \<Rightarrow> bool" where
  "isWhiteSpace c =
     (c \<in> set [CHR 0x09, CHR 0x0A, CHR 0x0B, CHR 0x0C, CHR 0x0D, CHR 0x20, CHR 0xA0])"

definition digitValue :: "char \<Rightarrow> nat option" where
  "digitValue c =
     (let n = (of_char c :: nat)
      in if 48 \<le> n \<and> n \<le> 57 then Some (n - 48)
         else if 97 \<le> n \<and> n \<le> 122 then Some (n - 87)
         else if 65 \<le> n \<and> n \<le> 90 then Some (n - 55)
         else None)"

definition isDigitOf :: "nat \<Rightarrow> char \<Rightarrow> bool" where
  "isDigitOf R c = (case digitValue c of None \<Rightarrow> False | Some d \<Rightarrow> d < R)"

definition parseInt :: "string \<Rightarrow> number" where
  "parseInt inputString =
     (let S = dropWhile isWhiteSpace inputString;
          sign = (if take 1 S = [CHR 0x2D] then - 1 else (1::int));
          S1 = (if take 1 S = [CHR 0x2B] \<or> take 1 S = [CHR 0x2D] then drop 1 S else S);
          stripPrefix = (take 2 S1 = ''0x'' \<or> take 2 S1 = ''0X'');
          R = (if stripPrefix then 16 else 10);
          S2 = (if stripPrefix then drop 2 S1 else S1);
          Z = takeWhile (isDigitOf R) S2;
          mathInt = foldl (\<lambda>acc c.
                      acc * int R + (case digitValue c of None \<Rightarrow> 0 | Some d \<Rightarrow> int d)) 0 Z
      in if Z = [] then NaN
         else if round_double mathInt \<ge> 2 ^ 1024
         then (if sign = 1 then PosInfinity else NegInfinity)
         else Fin (sign * round_double mathInt))"

text \<open>The prime mark \<^verbatim>\<open>'\<close> is the character 0x27.\<close>

definition parseVoicingDegree :: "VoicingDegree \<Rightarrow> number \<times> int" where
  "parseVoicingDegree degree =
     (case degree of
        DNum n \<Rightarrow> (Fin n, 0)
      | DStr s \<Rightarrow>
          (let primeCount = int (length (filter (\<lambda>c. c = CHR 0x27) s));
               scaleDegreeParsed = parseInt (filter (\<lambda>c. c \<noteq> CHR 0x27) s)
           in (scaleDegreeParsed, primeCount)))"

text \<open>
  \<open>scaleDegree\<close> is an integer-valued double. The two additions of
  \<^verbatim>\<open>tonicIndex + scaleDegree - 1\<close> are each rounded to a double; the remainder
  \<^verbatim>\<open>%\<close> of doubles is exact, and so is the small sum after it.
\<close>

definition getNoteLetter :: "int \<Rightarrow> KeySignature \<Rightarrow> NoteLetter" where
  "getNoteLetter scaleDegree keySignature =
     (let tonicLetter = hd (key_name keySignature);
          tonicIndex = indexOf (map letter_name NOTE_LETTERS) tonicLetter;
          noteIndex = round_double (round_double (tonicIndex + scaleDegree) - 1);
          wrappedIndex = js_rem (js_rem noteIndex 7 + 7) 7
      in NOTE_LETTERS ! nat wrappedIndex)"

definition noteToMidiPitch :: "NoteLetter \<Rightarrow> int \<Rightarrow> int \<Rightarrow> Pitch" where
  "noteToMidiPitch noteLetter accidental octave =
     (let basePitch = NATURAL_SEMITONES noteLetter
      in (octave + 1) * 12 + basePitch + accidental)"

text \<open>
  When the parsed degree is NaN, every number computed from it is NaN, the letter read
  at the NaN index is \<^verbatim>\<open>undefined\<close>, and \<^verbatim>\<open>noteToMidiPitch(undefined, 0, NaN)\<close>
  is NaN: the resolved pitch is NaN. When the parsed degree is an infinity, the note
  index is that infinity, its remainder by 7 is NaN, the letter is again
  \<^verbatim>\<open>undefined\<close>, and the resolved pitch is NaN as well.
\<close>

definition calculatePitchFromDegree ::
  "VoicingDegree \<Rightarrow> Pitch \<Rightarrow> KeySignature \<Rightarrow> int \<Rightarrow> number" where
  "calculatePitchFromDegree voicingDegree referenceRoot keySignature rootScaleDegree =
     (case parseVoicingDegree voicingDegree of
        (NaN, octaveShift) \<Rightarrow> NaN
      | (PosInfinity, octaveShift) \<Rightarrow> NaN
      | (NegInfinity, octaveShift) \<Rightarrow> NaN
      | (Fin degree, octaveShift) \<Rightarrow>
          (let absoluteScaleDegree = rootScaleDegree + (degree - 1);
               noteLetter = getNoteLetter absoluteScaleDegree keySignature;
               accidental = accidentalOf keySignature noteLetter;
               referenceOctave = referenceRoot div 12 - 1;
               rootNoteLetter = getNoteLetter rootScaleDegree keySignature;
               rootNoteIndex = indexOf NOTE_LETTERS rootNoteLetter;
               noteIndex = indexOf NOTE_LETTERS noteLetter;
               diatonicSteps = degree - 1;
               octavesCrossed = diatonicSteps div 7;
               octave = referenceOctave + octavesCrossed;
               octave1 = (if octavesCrossed = 0 \<and> noteIndex < rootNoteIndex
                          then octave + 1 else octave);
               octave2 = octave1 + octaveShift
           in Fin (noteToMidiPitch noteLetter accidental octave2)))"

text \<open>The two normalising loops of \<open>findReferenceRoot\<close>, on the loop variables
  \<open>octave\<close> and \<open>pitch\<close>.\<close>

function normalize_down :: "NoteLetter \<Rightarrow> int \<Rightarrow> int \<Rightarrow> Pitch \<Rightarrow> int \<times> Pitch" where
  "normalize_down noteLetter accidental octave pitch =
     (if pitch \<ge> 60
      then normalize_down noteLetter accidental (octave - 1)
             (noteToMidiPitch noteLetter accidental (octave - 1))
      else (octave, pitch))"
  by pat_completeness auto
termination
  by (relation "measure (\<lambda>(l, a, octave, pitch).
        if pitch \<ge> 60 then 1 + nat (12 * octave + NATURAL_SEMITONES l + a) else 0)")
     (auto simp: noteToMidiPitch_def)

declare normalize_down.simps [simp del]

function normalize_up :: "NoteLetter \<Rightarrow> int \<Rightarrow> int \<Rightarrow> Pitch \<Rightarrow> int \<times> Pitch" where
  "normalize_up noteLetter accidental octave pitch =
     (if pitch < 48
      then normalize_up noteLetter accidental (octave + 1)
             (noteToMidiPitch noteLetter accidental (octave + 1))
      else (octave, pitch))"
  by pat_completeness auto
termination
  by (relation "measure (\<lambda>(l, a, octave, pitch).
        if pitch < 48 then 1 + nat (48 - (12 * (octave + 1) + NATURAL_SEMITONES l + a)) else 0)")
     (auto simp: noteToMidiPitch_def)

declare normalize_up.simps [simp del]

definition findReferenceRoot :: "int \<Rightarrow> KeySignature \<Rightarrow> Voicing \<Rightarrow> Pitch" where
  "findReferenceRoot rootScaleDegree keySignature voicing =
     (let noteLetter = getNoteLetter rootScaleDegree keySignature;
          accidental = accidentalOf keySignature noteLetter;
          octave = 3;
          pitch = noteToMidiPitch noteLetter accidental octave;
          (octave1, pitch1) = normalize_down noteLetter accidental octave pitch;
          (octave2, pitch2) = normalize_up noteLetter accidental octave1 pitch1
      in pitch2)"

text \<open>A thrown \<^verbatim>\<open>Error\<close> with its message, and the \<^verbatim>\<open>TypeError\<close> of reading
  a property of \<^verbatim>\<open>undefined\<close>.\<close>

datatype error = Error string | TypeError

definition calculatePitches ::
  "int \<Rightarrow> KeySignature \<Rightarrow> Voicing \<Rightarrow> Pitch option
     \<Rightarrow> error + (number \<times> number \<times> number \<times> number)" where
  "calculatePitches rootScaleDegree keySignature voicing explicitReferenceRoot =
     (if length voicing \<noteq> 4 then Inl (Error ''Voicing must have exactly 4 notes'')
      else
        (let referenceRoot =
               (case explicitReferenceRoot of
                  Some r \<Rightarrow> r
                | None \<Rightarrow> findReferenceRoot rootScaleDegree keySignature voicing);
             resolved = map (\<lambda>degree.
               calculatePitchFromDegree degree referenceRoot keySignature rootScaleDegree) voicing;
             bass = resolved ! 0;
             tenor = resolved ! 1;
             alto = resolved ! 2;
             soprano = resolved ! 3
         in Inr (soprano, alto, tenor, bass)))"

section \<open>Range validation (rangeValidation.ts)\<close>

record VoiceRange =
  min :: int
  max :: int

fun VOICE_RANGES :: "Voice \<Rightarrow> VoiceRange" where
  "VOICE_RANGES Soprano = \<lparr>min = 60, max = 81\<rparr>"
| "VOICE_RANGES Alto = \<lparr>min = 55, max = 76\<rparr>"
| "VOICE_RANGES Tenor = \<lparr>min = 48, max = 67\<rparr>"
| "VOICE_RANGES Bass = \<lparr>min = 40, max = 62\<rparr>"

text \<open>A comparison with NaN is false; an infinity fails one of the two bounds.\<close>

definition isPitchInRange :: "number \<Rightarrow> Voice \<Rightarrow> bool" where
  "isPitchInRange pitch voice =
     (let range = VOICE_RANGES voice
      in case pitch of
           NaN \<Rightarrow> False
         | PosInfinity \<Rightarrow> False
         | NegInfinity \<Rightarrow> False
         | Fin p \<Rightarrow> p \<ge> min range \<and> p \<le> max range)"

definition validatePitches :: "number \<times> number \<times> number \<times> number \<Rightarrow> bool" where
  "validatePitches pitches =
     (case pitches of (soprano, alto, tenor, bass) \<Rightarrow>
        isPitchInRange soprano Soprano \<and>
        isPitchInRange alto Alto \<and>
        isPitchInRange tenor Tenor \<and>
        isPitchInRange bass Bass)"

section \<open>The voicing catalog (voicings.ts)\<close>

text \<open>\<open>marked d n\<close> is the string literal of the digits \<open>d\<close> followed by \<open>n\<close> prime
  marks: \<^verbatim>\<open>"3''"\<close> is \<open>marked ''3'' 2\<close>.\<close>

definition marked :: "string \<Rightarrow> nat \<Rightarrow> VoicingDegree" where
  "marked d n = DStr (d @ replicate n (CHR 0x27))"

text \<open>The catalog, an object literal, as the list of its entries in source order; the order
  of a voicing is [bass, tenor, alto, soprano].\<close>

definition VOICINGS :: "(VoicingCategory \<times> Voicing list) list" where
  "VOICINGS = [
     (''SB-doubled-close'',
       [[DNum 1, DNum 3, DNum 5, marked ''1'' 1],
        [DNum 5, marked ''1'' 1, marked ''3'' 1, marked ''5'' 1],
        [DNum 3, DNum 5, marked ''1'' 1, marked ''3'' 1]]),
     (''SB-doubled-spread'',
       [[DNum 1, DNum 5, marked ''3'' 1, marked ''1'' 2],
        [DNum 5, marked ''3'' 1, marked ''1'' 2, marked ''5'' 2],
        [DNum 3, marked ''1'' 1, marked ''5'' 1, marked ''3'' 2]]),
     (''AB-doubled-close'',
       [[DNum 1, DNum 5, marked ''1'' 1, marked ''3'' 1],
        [DNum 5, marked ''3'' 1, marked ''5'' 1, marked ''1'' 2],
        [DNum 3, marked ''1'' 1, marked ''3'' 1, marked ''5'' 1]]),
     (''AB-doubled-spread'',
       [[DNum 1, DNum 3, marked ''1'' 1, marked ''5'' 1],
        [DNum 5, marked ''1'' 1, marked ''5'' 1, marked ''3'' 2],
        [DNum 3, DNum 5, marked ''3'' 1, marked ''1'' 2]]),
     (''TB-doubled-close'',
       [[DNum 1, marked ''1'' 1, marked ''3'' 1, marked ''5'' 1],
        [DNum 5, marked ''5'' 1, marked ''1'' 2, marked ''3'' 2],
        [DNum 3, marked ''3'' 1, marked ''5'' 1, marked ''1'' 2]]),
     (''TB-doubled-spread'',
       [[DNum 1, marked ''1'' 1, marked ''5'' 1, marked ''3'' 2],
        [DNum 5, marked ''5'' 1, marked ''3'' 2, marked ''1'' 3],
        [DNum 3, marked ''3'' 1, marked ''1'' 2, marked ''5'' 2]]),
     (''ST-doubled-bottom-close'',
       [[DNum 1, DNum 3, DNum 5, marked ''3'' 1],
        [DNum 5, marked ''1'' 1, marked ''3'' 1, marked ''1'' 2],
        [DNum 3, DNum 5, marked ''1'' 1, marked ''5'' 1]]),
     (''ST-doubled-bottom-spread'',
       [[DNum 1, DNum 5, marked ''3'' 1, marked ''5'' 1],
        [DNum 5, marked ''3'' 1, marked ''1'' 2, marked ''3'' 2],
        [DNum 3, marked ''1'' 1, marked ''5'' 1, marked ''1'' 2]]),
     (''TA-doubled-close'',
       [[DNum 1, DNum 3, marked ''3'' 1, marked ''5'' 1],
        [DNum 5, marked ''1'' 1, marked ''1'' 2, marked ''3'' 2],
        [DNum 3, DNum 5, marked ''5'' 1, marked ''1'' 2]]),
     (''TA-doubled-spread'',
       [[DNum 1, DNum 5, marked ''5'' 1, marked ''3'' 2],
        [DNum 5, marked ''3'' 1, marked ''3'' 2, marked ''1'' 3],
        [DNum 3, marked ''1'' 1, marked ''1'' 2, marked ''5'' 2]]),
     (''AS-doubled-close'',
       [[DNum 1, DNum 3, DNum 5, marked ''5'' 1],
        [DNum 5, marked ''1'' 1, marked ''3'' 1, marked ''3'' 2],
        [DNum 3, DNum 5, marked ''1'' 1, marked ''1'' 2]]),
     (''AS-doubled-spread'',
       [[DNum 1, DNum 5, marked ''3'' 1, marked ''3'' 2],
        [DNum 5, marked ''3'' 1, marked ''1'' 2, marked ''1'' 3],
        [DNum 3, marked ''1'' 1, marked ''5'' 1, marked ''5'' 2]])]"

section \<open>Voicing selections (voicingSelection.ts)\<close>

datatype DoublingType = SB | AB | TB | ST | TA | AS
datatype SpacingType = Close | Spread
datatype InversionType = Root | Fifth | Third

record VoicingSelection =
  doubling :: DoublingType
  spacing :: SpacingType
  inversion :: InversionType

text \<open>The string of a doubling, as the template literal reads it.\<close>

fun doubling_name :: "DoublingType \<Rightarrow> string" where
  "doubling_name SB = ''SB''"
| "doubling_name AB = ''AB''"
| "doubling_name TB = ''TB''"
| "doubling_name ST = ''ST''"
| "doubling_name TA = ''TA''"
| "doubling_name AS = ''AS''"

definition selectionToCategory :: "VoicingSelection \<Rightarrow> VoicingCategory \<times> nat" where
  "selectionToCategory selection =
     (let spacingSuffix = (if spacing selection = Close then ''-close'' else ''-spread'');
          category =
            (if doubling selection = ST
             then doubling_name (doubling selection) @ ''-doubled-bottom'' @ spacingSuffix
             else doubling_name (doubling selection) @ ''-doubled'' @ spacingSuffix);
          inversionIndex =
            (if inversion selection = Root then 0
             else if inversion selection = Fifth then 1
             else 2)
      in (category, inversionIndex))"

definition getVoicingForSelection :: "VoicingSelection \<Rightarrow> Voicing option" where
  "getVoicingForSelection selection =
     (case selectionToCategory selection of (category, index) \<Rightarrow>
        (case map_of VOICINGS category of
           None \<Rightarrow> None
         | Some voicings \<Rightarrow>
             if index \<ge> length voicings then None else Some (voicings ! index)))"

text \<open>The loop of \<open>getVoicingsForSelections\<close> over the selections, pushing onto
  \<open>result\<close>; an entry is the object \<^verbatim>\<open>{category, index, voicing}\<close>.\<close>

fun getVoicingsForSelections_loop ::
  "VoicingSelection list \<Rightarrow> (VoicingCategory \<times> nat \<times> Voicing) list
     \<Rightarrow> (VoicingCategory \<times> nat \<times> Voicing) list" where
  "getVoicingsForSelections_loop [] result = result"
| "getVoicingsForSelections_loop (selection # rest) result =
     (case getVoicingForSelection selection of
        Some v \<Rightarrow>
          (case selectionToCategory selection of (category, index) \<Rightarrow>
             getVoicingsForSelections_loop rest (result @ [(category, index, v)]))
      | None \<Rightarrow> getVoicingsForSelections_loop rest result)"

definition getVoicingsForSelections ::
  "VoicingSelection list \<Rightarrow> (VoicingCategory \<times> nat \<times> Voicing) list" where
  "getVoicingsForSelections selections = getVoicingsForSelections_loop selections []"

section \<open>Chord generation (chordGeneration.ts)\<close>

definition isValidCombination :: "int \<Rightarrow> KeySignature \<Rightarrow> Voicing \<Rightarrow> bool" where
  "isValidCombination rootScaleDegree keySignature voicing =
     (case calculatePitches rootScaleDegree keySignature voicing None of
        Inr pitches \<Rightarrow> validatePitches pitches
      | Inl e \<Rightarrow> False)"

text \<open>The inner loop of \<open>getValidRoots\<close>, \<^verbatim>\<open>for (let octave = 1; octave <= 5; octave++)\<close>,
  on the loop variable and the list \<open>validCombinations\<close>; a recorded entry is the object
  \<^verbatim>\<open>{root, referenceRoot}\<close>. An exception of \<open>calculatePitches\<close> is caught and the
  candidate skipped.\<close>

function getValidRoots_octaves ::
  "Voicing \<Rightarrow> KeySignature \<Rightarrow> int \<Rightarrow> int \<Rightarrow> (int \<times> Pitch) list \<Rightarrow> (int \<times> Pitch) list" where
  "getValidRoots_octaves voicing keySignature r octave validCombinations =
     (if octave \<le> 5 then
        (let noteLetter = getNoteLetter r keySignature;
             accidental = accidentalOf keySignature noteLetter;
             referenceRoot = noteToMidiPitch noteLetter accidental octave;
             pushed =
               (case calculatePitches r keySignature voicing (Some referenceRoot) of
                  Inr pitches \<Rightarrow>
                    if validatePitches pitches
                    then validCombinations @ [(r, referenceRoot)]
                    else validCombinations
                | Inl e \<Rightarrow> validCombinations)
         in getValidRoots_octaves voicing keySignature r (octave + 1) pushed)
      else validCombinations)"
  by pat_completeness auto
termination
  by (relation "measure (\<lambda>(v, k, r, octave, acc). nat (6 - octave))") auto

declare getValidRoots_octaves.simps [simp del]

text \<open>The outer loop, \<^verbatim>\<open>for (let root = 1; root <= 7; root++)\<close>.\<close>

function getValidRoots_roots ::
  "Voicing \<Rightarrow> KeySignature \<Rightarrow> int \<Rightarrow> (int \<times> Pitch) list \<Rightarrow> (int \<times> Pitch) list" where
  "getValidRoots_roots voicing keySignature r validCombinations =
     (if r \<le> 7 then
        getValidRoots_roots voicing keySignature (r + 1)
          (getValidRoots_octaves voicing keySignature r 1 validCombinations)
      else validCombinations)"
  by pat_completeness auto
termination
  by (relation "measure (\<lambda>(v, k, r, acc). nat (8 - r))") auto

declare getValidRoots_roots.simps [simp del]

definition getValidRoots :: "Voicing \<Rightarrow> KeySignature \<Rightarrow> (int \<times> Pitch) list" where
  "getValidRoots voicing keySignature = getValidRoots_roots voicing keySignature 1 []"

text \<open>The three nested loops of \<open>generateRandomChord\<close> that fill the pool
  \<open>validCombinations\<close>; an entry is the object
  \<^verbatim>\<open>{category, voicingIndex, voicing, key, root, referenceRoot}\<close>.\<close>

type_synonym Combination =
  "VoicingCategory \<times> nat \<times> Voicing \<times> KeySignature \<times> int \<times> Pitch"

fun collect_roots ::
  "VoicingCategory \<Rightarrow> nat \<Rightarrow> Voicing \<Rightarrow> KeySignature \<Rightarrow> (int \<times> Pitch) list
     \<Rightarrow> Combination list \<Rightarrow> Combination list" where
  "collect_roots category index v key [] validCombinations = validCombinations"
| "collect_roots category index v key ((r, referenceRoot) # rest) validCombinations =
     collect_roots category index v key rest
       (validCombinations @ [(category, index, v, key, r, referenceRoot)])"

fun collect_keys ::
  "VoicingCategory \<Rightarrow> nat \<Rightarrow> Voicing \<Rightarrow> KeySignature list
     \<Rightarrow> Combination list \<Rightarrow> Combination list" where
  "collect_keys category index v [] validCombinations = validCombinations"
| "collect_keys category index v (key # rest) validCombinations =
     (let validRootCombos = getValidRoots v key
      in collect_keys category index v rest
           (collect_roots category index v key validRootCombos validCombinations))"

fun collect_voicings ::
  "(VoicingCategory \<times> nat \<times> Voicing) list \<Rightarrow> KeySignature list
     \<Rightarrow> Combination list \<Rightarrow> Combination list" where
  "collect_voicings [] enabledKeys validCombinations = validCombinations"
| "collect_voicings ((category, index, v) # rest) enabledKeys validCombinations =
     collect_voicings rest enabledKeys
       (collect_keys category index v enabledKeys validCombinations)"

record Chord =
  root :: int
  keySignature :: KeySignature
  mode :: Mode
  voicing :: Voicing
  pitches :: "number \<times> number \<times> number \<times> number"

text \<open>\<open>random\<close> is the value of \<^verbatim>\<open>Math.random()\<close>. Reading a property of an array
  element out of range is a \<^verbatim>\<open>TypeError\<close>.\<close>

definition generateRandomChord ::
  "VoicingSelection list \<Rightarrow> KeySignature list \<Rightarrow> Mode \<Rightarrow> real \<Rightarrow> error + Chord option" where
  "generateRandomChord enabledSelections enabledKeys m random =
     (if length enabledSelections = 0 \<or> length enabledKeys = 0 then Inr None
      else
        (let selectedVoicings = getVoicingsForSelections enabledSelections;
             validCombinations = collect_voicings selectedVoicings enabledKeys []
         in if length validCombinations = 0 then Inr None
            else
              (let randomIndex = \<lfloor>random * real (length validCombinations)\<rfloor>
               in if 0 \<le> randomIndex \<and> randomIndex < int (length validCombinations)
                  then
                    (case validCombinations ! nat randomIndex of
                       (category, index, v, key, r, referenceRoot) \<Rightarrow>
                         (case calculatePitches r key v (Some referenceRoot) of
                            Inl e \<Rightarrow> Inl e
                          | Inr ps \<Rightarrow>
                              Inr (Some \<lparr>root = r, keySignature = key, mode = m,
                                         voicing = v, pitches = ps\<rparr>)))
                  else Inl TypeError)))"

definition generateChord ::
  "int \<Rightarrow> KeySignature \<Rightarrow> Mode \<Rightarrow> Voicing \<Rightarrow> error + Chord option" where
  "generateChord rootScaleDegree key m v =
     (if \<not> isValidCombination rootScaleDegree key v then Inr None
      else
        (case calculatePitches rootScaleDegree key v None of
           Inl e \<Rightarrow> Inl e
         | Inr ps \<Rightarrow>
             Inr (Some \<lparr>root = rootScaleDegree, keySignature = key, mode = m,
                        voicing = v, pitches = ps\<rparr>)))"

section \<open>Diatonic transposition (the App component)\<close>

datatype Direction = Up | Down

text \<open>The state \<open>currentChord\<close>: a chord with the optional field \<open>octaveOffset\<close>, or
  null.\<close>

record CurrentChord = Chord +
  octaveOffset :: "int option"

text \<open>Addition of an integer to a number, NaN and the infinities absorbing.\<close>

fun plus_number :: "number \<Rightarrow> int \<Rightarrow> number" where
  "plus_number NaN k = NaN"
| "plus_number PosInfinity k = PosInfinity"
| "plus_number NegInfinity k = NegInfinity"
| "plus_number (Fin p) k = Fin (p + k)"

text \<open>
  \<open>transposeChord\<close> reads the state \<open>currentChord\<close> and returns the state after the
  call: unchanged (null) on the early return, the chord passed to \<open>setCurrentChord\<close>
  otherwise. An exception of \<open>calculatePitches\<close> leaves the callback before the state
  is set.
\<close>

definition transposeChord ::
  "Direction \<Rightarrow> CurrentChord option \<Rightarrow> error + CurrentChord option" where
  "transposeChord direction currentChord =
     (case currentChord of
        None \<Rightarrow> Inr None
      | Some cur \<Rightarrow>
          (let offset0 = (case octaveOffset cur of
                            None \<Rightarrow> 0
                          | Some n \<Rightarrow> (if n = 0 then 0 else n));
               oldRootLetter = getNoteLetter (root cur) (keySignature cur);
               oldNoteIndex = indexOf NOTE_LETTERS oldRootLetter;
               newRoot = (if direction = Up then js_rem (root cur) 7 + 1
                          else if root cur = 1 then 7 else root cur - 1);
               newRootLetter = getNoteLetter newRoot (keySignature cur);
               newNoteIndex = indexOf NOTE_LETTERS newRootLetter;
               offset1 = (if direction = Up \<and> newNoteIndex < oldNoteIndex then offset0 + 1
                          else if direction = Down \<and> newNoteIndex > oldNoteIndex then offset0 - 1
                          else offset0)
           in case calculatePitches newRoot (keySignature cur) (voicing cur) None of
                Inl e \<Rightarrow> Inl e
              | Inr (p0, p1, p2, p3) \<Rightarrow>
                  Inr (Some (cur\<lparr>root := newRoot,
                                 pitches := (plus_number p0 (offset1 * 12),
                                             plus_number p1 (offset1 * 12),
                                             plus_number p2 (offset1 * 12),
                                             plus_number p3 (offset1 * 12)),
                                 octaveOffset := Some offset1\<rparr>))))"

section \<open>The valid-root search as the spec words it\<close>

text \<open>
  The spec's description of \<open>getValidRoots\<close>, to be compared with the loops above: the
  candidates are each root scale degree 1 through 7 paired with each octave register 1
  through 5; a candidate's reference root is the root's letter and accidental at that
  octave; a candidate passes when the four pitches resolved against its reference root
  validate; the pairs recorded are (root, reference root) of the passing candidates.
\<close>

definition referenceRootFor :: "KeySignature \<Rightarrow> int \<Rightarrow> int \<Rightarrow> Pitch" where
  "referenceRootFor key r octave =
     noteToMidiPitch (getNoteLetter r key)
       (accidentalOf key (getNoteLetter r key)) octave"

definition candidate_passes :: "Voicing \<Rightarrow> KeySignature \<Rightarrow> int \<times> int \<Rightarrow> bool" where
  "candidate_passes v key c =
     (case calculatePitches (fst c) key v
             (Some (referenceRootFor key (fst c) (snd c))) of
        Inr ps \<Rightarrow> validatePitches ps
      | Inl e \<Rightarrow> False)"

definition candidates :: "(int \<times> int) list" where
  "candidates = List.product [1..7] [1..5]"

definition recorded :: "Voicing \<Rightarrow> KeySignature \<Rightarrow> (int \<times> int) list \<Rightarrow> (int \<times> Pitch) list" where
  "recorded v key cs =
     map (\<lambda>c. (fst c, referenceRootFor key (fst c) (snd c)))
       (filter (candidate_passes v key) cs)"

section \<open>Properties\<close>

lemma js_rem_7: "js_rem (js_rem n 7 + 7) 7 = n mod 7"
proof (cases "n < 0")
  case True
  have "js_rem n 7 = - ((- n) mod 7)"
    using True by (simp add: js_rem_def minus_mod_eq_mult_div [symmetric] algebra_simps)
  moreover have "0 \<le> 7 - ((- n) mod 7)" "(7 - ((- n) mod 7)) mod 7 = n mod 7"
    by presburger+
  ultimately show ?thesis
    by (simp add: js_rem_def minus_mod_eq_mult_div [symmetric])
next
  case False
  then have "js_rem n 7 = n mod 7"
    by (simp add: js_rem_def minus_mod_eq_mult_div [symmetric])
  then show ?thesis
    by (simp add: js_rem_def minus_mod_eq_mult_div [symmetric])
qed

subsection \<open>Note letters\<close>

lemma tonicIndex_range:
  "0 \<le> indexOf (map letter_name NOTE_LETTERS) (hd (key_name k)) \<and>
   indexOf (map letter_name NOTE_LETTERS) (hd (key_name k)) < 7"
  by (cases k) (simp_all add: NOTE_LETTERS_def)

lemma indexOf_NOTE_LETTERS_nth:
  assumes "0 \<le> m" "m < 7"
  shows "indexOf NOTE_LETTERS (NOTE_LETTERS ! nat m) = m"
proof -
  from assms have "m = 0 \<or> m = 1 \<or> m = 2 \<or> m = 3 \<or> m = 4 \<or> m = 5 \<or> m = 6" by arith
  then show ?thesis by (auto simp: NOTE_LETTERS_def)
qed

lemma round_double_exact: "\<bar>x\<bar> \<le> 2 ^ 53 \<Longrightarrow> round_double x = x"
  by (simp add: round_double_def)

lemma getNoteLetter_mod:
  assumes "- (2 ^ 53) < d" "d \<le> 2 ^ 53 - 6"
  shows "getNoteLetter d k =
     NOTE_LETTERS ! nat ((indexOf (map letter_name NOTE_LETTERS) (hd (key_name k)) + d - 1) mod 7)"
proof -
  let ?t = "indexOf (map letter_name NOTE_LETTERS) (hd (key_name k))"
  have t: "0 \<le> ?t" "?t < 7" using tonicIndex_range [of k] by simp_all
  have "\<bar>?t + d\<bar> \<le> 2 ^ 53" using t assms by linarith
  then have r1: "round_double (?t + d) = ?t + d" by (rule round_double_exact)
  have "\<bar>?t + d - 1\<bar> \<le> 2 ^ 53" using t assms by linarith
  then have r2: "round_double (?t + d - 1) = ?t + d - 1" by (rule round_double_exact)
  show ?thesis
    by (simp add: getNoteLetter_def Let_def r1 r2 js_rem_7)
qed

lemma indexOf_getNoteLetter:
  assumes "- (2 ^ 53) < d" "d \<le> 2 ^ 53 - 6"
  shows "indexOf NOTE_LETTERS (getNoteLetter d k) =
     (indexOf (map letter_name NOTE_LETTERS) (hd (key_name k)) + d - 1) mod 7"
  unfolding getNoteLetter_mod [OF assms] by (rule indexOf_NOTE_LETTERS_nth) simp_all

lemma small_degree: "- (2 ^ 53) < (1::int)" "(1::int) \<le> 2 ^ 53 - 6"
  "- (2 ^ 53) < (7::int)" "(7::int) \<le> 2 ^ 53 - 6"
  "- (2 ^ 53) < (0::int)" "(0::int) \<le> 2 ^ 53 - 6"
  "- (2 ^ 53) < (8::int)" "(8::int) \<le> 2 ^ 53 - 6"
  by simp_all

text \<open>
  C8. For every key signature, \<open>getNoteLetter\<close> has period 7 in the scale degree for
  every integer degree above \<open>- 2 ^ 53\<close> and up to \<open>2 ^ 53 - 13\<close>, the degrees on which
  the double-precision index arithmetic is exact for the degree and for the degree plus 7
  in every key, and there each further degree advances one place in the cycle
  C, D, E, F, G, A, B, wrapping from B to C. In particular degree 8 gives the letter of
  degree 1 and degree 0 the letter of degree 7, and degree 1 is the key's tonic letter.
\<close>

theorem getNoteLetter_period_7:
  "(- (2 ^ 53) < degree \<and> degree \<le> 2 ^ 53 - 13 \<longrightarrow>
      getNoteLetter (degree + 7) key = getNoteLetter degree key \<and>
      indexOf NOTE_LETTERS (getNoteLetter (degree + 1) key) =
        (indexOf NOTE_LETTERS (getNoteLetter degree key) + 1) mod 7)
   \<and> getNoteLetter 8 key = getNoteLetter 1 key
   \<and> getNoteLetter 0 key = getNoteLetter 7 key
   \<and> letter_name (getNoteLetter 1 key) = hd (key_name key)"
proof -
  have shift: "(t + (d + 7) - 1) mod 7 = (t + d - 1) mod (7::int)" for t d
  proof -
    have "t + (d + 7) - 1 = (t + d - 1) + 7" by simp
    then show ?thesis by (metis mod_add_self2)
  qed
  have p: "getNoteLetter (d + 7) key = getNoteLetter d key"
    if "- (2 ^ 53) < d" "d \<le> 2 ^ 53 - 13" for d
  proof -
    have lo: "- (2 ^ 53) < d + 7" and hi: "d + 7 \<le> 2 ^ 53 - 6" and hi0: "d \<le> 2 ^ 53 - 6"
      using that by linarith+
    show ?thesis
      unfolding getNoteLetter_mod [OF lo hi] getNoteLetter_mod [OF that(1) hi0] shift ..
  qed
  have s: "indexOf NOTE_LETTERS (getNoteLetter (d + 1) key) =
     (indexOf NOTE_LETTERS (getNoteLetter d key) + 1) mod 7"
    if "- (2 ^ 53) < d" "d \<le> 2 ^ 53 - 13" for d
  proof -
    have lo: "- (2 ^ 53) < d + 1" and hi: "d + 1 \<le> 2 ^ 53 - 6" and hi0: "d \<le> 2 ^ 53 - 6"
      using that by linarith+
    have "t + (d + 1) - 1 = (t + d - 1) + 1" for t :: int by simp
    then show ?thesis
      unfolding indexOf_getNoteLetter [OF lo hi] indexOf_getNoteLetter [OF that(1) hi0]
      by (simp add: mod_add_left_eq)
  qed
  have a: "getNoteLetter 8 key = getNoteLetter 1 key" using p [of 1] by simp
  have b: "getNoteLetter 0 key = getNoteLetter 7 key" using p [of 0] by simp
  have c: "letter_name (getNoteLetter 1 key) = hd (key_name key)"
    by (cases key) (simp_all add: getNoteLetter_mod [OF small_degree(1,2)] NOTE_LETTERS_def)
  from p s a b c show ?thesis by blast
qed

theorem getNoteLetter_period_7_witness:
  "getNoteLetter (9007199254740979 + 7) Key_B = getNoteLetter 9007199254740979 Key_B
   \<and> indexOf NOTE_LETTERS (getNoteLetter (9007199254740979 + 1) Key_B) =
        (indexOf NOTE_LETTERS (getNoteLetter 9007199254740979 Key_B) + 1) mod 7"
  using getNoteLetter_period_7 [of 9007199254740979 Key_B] by simp

text \<open>
  Beyond that range the period fails. In key D the degrees \<open>2 ^ 53 - 7\<close> and \<open>2 ^ 53\<close>,
  both doubles, get the letters G and F: at \<open>2 ^ 53\<close> the sum with the tonic index 1
  is rounded back to \<open>2 ^ 53\<close>.
\<close>

theorem getNoteLetter_period_7_counterexample:
  "getNoteLetter 9007199254740985 Key_D = LG
   \<and> getNoteLetter (9007199254740985 + 7) Key_D = LF
   \<and> round_double 9007199254740985 = 9007199254740985
   \<and> round_double (9007199254740985 + 7) = 9007199254740985 + 7"
  by code_simp

subsection \<open>Range validation\<close>

text \<open>
  C5. \<open>validatePitches [soprano, alto, tenor, bass]\<close> is true exactly when soprano is in
  [60, 81], alto in [55, 76], tenor in [48, 67] and bass in [40, 62], bounds included: the
  boundary values pass, one semitone outside a bound fails the whole test, and so does
  a pitch that is NaN.
\<close>

theorem validatePitches_iff:
  "validatePitches (Fin s, Fin a, Fin t, Fin b) =
     (60 \<le> s \<and> s \<le> 81 \<and> 55 \<le> a \<and> a \<le> 76 \<and> 48 \<le> t \<and> t \<le> 67 \<and> 40 \<le> b \<and> b \<le> 62)
   \<and> validatePitches (Fin 60, Fin 55, Fin 48, Fin 40)
   \<and> validatePitches (Fin 81, Fin 76, Fin 67, Fin 62)
   \<and> \<not> validatePitches (Fin 59, Fin 55, Fin 48, Fin 40)
   \<and> \<not> validatePitches (Fin 82, Fin 76, Fin 67, Fin 62)
   \<and> \<not> validatePitches (NaN, Fin a, Fin t, Fin b)
   \<and> \<not> validatePitches (Fin s, NaN, Fin t, Fin b)
   \<and> \<not> validatePitches (Fin s, Fin a, NaN, Fin b)
   \<and> \<not> validatePitches (Fin s, Fin a, Fin t, NaN)"
  by (simp add: validatePitches_def isPitchInRange_def)

subsection \<open>Resolving the four pitches\<close>

text \<open>
  C6. \<open>calculatePitches\<close> fails with the error "Voicing must have exactly 4 notes"
  whenever the voicing does not have exactly four entries; for a voicing
  [bass, tenor, alto, soprano] it returns the four resolved pitches in the order
  [soprano, alto, tenor, bass], resolved against the explicit reference root if one is
  given and against \<open>findReferenceRoot\<close> otherwise.
\<close>

theorem calculatePitches_length:
  "(length v \<noteq> 4 \<longrightarrow>
      calculatePitches r key v ref = Inl (Error ''Voicing must have exactly 4 notes''))
   \<and> calculatePitches r key [b, t, a, s] ref =
       (let referenceRoot = (case ref of Some x \<Rightarrow> x | None \<Rightarrow> findReferenceRoot r key [b, t, a, s])
        in Inr (calculatePitchFromDegree s referenceRoot key r,
                calculatePitchFromDegree a referenceRoot key r,
                calculatePitchFromDegree t referenceRoot key r,
                calculatePitchFromDegree b referenceRoot key r))"
  by (simp add: calculatePitches_def Let_def)

theorem calculatePitches_length_witness:
  "length [DNum 1, DNum 3, DNum 5] \<noteq> 4 \<and>
   calculatePitches 1 Key_C [DNum 1, DNum 3, DNum 5] None
     = Inl (Error ''Voicing must have exactly 4 notes'')"
  using calculatePitches_length [of "[DNum 1, DNum 3, DNum 5]" 1 Key_C None]
  by simp

subsection \<open>The reference root\<close>

lemma normalize_down_spec:
  "pitch = noteToMidiPitch l a octave \<Longrightarrow> normalize_down l a octave pitch = (o', p') \<Longrightarrow>
     p' = noteToMidiPitch l a o' \<and> p' < 60 \<and> (48 \<le> pitch \<longrightarrow> 48 \<le> p')"
proof (induction l a octave pitch rule: normalize_down.induct)
  case (1 l a octave pitch)
  show ?case
  proof (cases "pitch \<ge> 60")
    case True
    let ?q = "noteToMidiPitch l a (octave - 1)"
    have q: "?q = pitch - 12" using "1.prems"(1) by (simp add: noteToMidiPitch_def)
    have rec: "normalize_down l a (octave - 1) ?q = (o', p')"
      using "1.prems"(2) True by (subst (asm) normalize_down.simps) simp
    have "p' = noteToMidiPitch l a o' \<and> p' < 60 \<and> (48 \<le> ?q \<longrightarrow> 48 \<le> p')"
      using "1.IH" [OF True refl rec] .
    then show ?thesis using q True by simp
  next
    case False
    then have "normalize_down l a octave pitch = (octave, pitch)"
      by (subst normalize_down.simps) simp
    then show ?thesis using "1.prems" False by auto
  qed
qed

lemma normalize_up_spec:
  "pitch = noteToMidiPitch l a octave \<Longrightarrow> normalize_up l a octave pitch = (o', p') \<Longrightarrow>
     p' = noteToMidiPitch l a o' \<and> 48 \<le> p' \<and> (pitch < 60 \<longrightarrow> p' < 60)"
proof (induction l a octave pitch rule: normalize_up.induct)
  case (1 l a octave pitch)
  show ?case
  proof (cases "pitch < 48")
    case True
    let ?q = "noteToMidiPitch l a (octave + 1)"
    have q: "?q = pitch + 12" using "1.prems"(1) by (simp add: noteToMidiPitch_def)
    have rec: "normalize_up l a (octave + 1) ?q = (o', p')"
      using "1.prems"(2) True by (subst (asm) normalize_up.simps) simp
    have "p' = noteToMidiPitch l a o' \<and> 48 \<le> p' \<and> (?q < 60 \<longrightarrow> p' < 60)"
      using "1.IH" [OF True refl rec] .
    then show ?thesis using q True by simp
  next
    case False
    then have "normalize_up l a octave pitch = (octave, pitch)"
      by (subst normalize_up.simps) simp
    then show ?thesis using "1.prems" False by auto
  qed
qed

text \<open>
  C7. For every key signature and every root scale degree (1 through 7 in particular),
  \<open>findReferenceRoot\<close> returns a MIDI pitch in the half-open interval [48, 60) that is
  the root's diatonic letter with its key-signature accidental at some whole octave.
\<close>

theorem findReferenceRoot_range:
  "48 \<le> findReferenceRoot r key v \<and> findReferenceRoot r key v < 60 \<and>
   (\<exists>octave. findReferenceRoot r key v =
      noteToMidiPitch (getNoteLetter r key) (accidentalOf key (getNoteLetter r key)) octave)"
proof -
  let ?l = "getNoteLetter r key"
  let ?a = "accidentalOf key ?l"
  let ?p = "noteToMidiPitch ?l ?a 3"
  obtain o1 p1 where d: "normalize_down ?l ?a 3 ?p = (o1, p1)"
    by (cases "normalize_down ?l ?a 3 ?p")
  obtain o2 p2 where u: "normalize_up ?l ?a o1 p1 = (o2, p2)"
    by (cases "normalize_up ?l ?a o1 p1")
  have d': "p1 = noteToMidiPitch ?l ?a o1" "p1 < 60"
    using normalize_down_spec [OF refl d] by simp_all
  have u': "p2 = noteToMidiPitch ?l ?a o2" "48 \<le> p2" "p2 < 60"
    using normalize_up_spec [OF d'(1) u] d'(2) by simp_all
  have "findReferenceRoot r key v = p2"
    using d u by (simp add: findReferenceRoot_def Let_def)
  then show ?thesis using u' by blast
qed

subsection \<open>The voicing catalog\<close>

lemma category_lookup:
  "\<exists>vs. map_of VOICINGS (fst (selectionToCategory \<lparr>doubling = d, spacing = s, inversion = i\<rparr>)) = Some vs
    \<and> map length vs = [4, 4, 4]"
  by (cases d; cases s) (simp_all add: selectionToCategory_def VOICINGS_def marked_def)

lemma distinct_categories: "distinct (map fst VOICINGS)"
  by (simp add: VOICINGS_def)

lemma inversion_index:
  "snd (selectionToCategory sel) < 3"
  by (simp add: selectionToCategory_def Let_def)

text \<open>
  C10. For every selection of a doubling, a spacing and an inversion (6 * 2 * 3 = 36 of
  them), \<open>getVoicingForSelection\<close> returns a voicing, of length exactly 4: the catalog
  has 12 categories, of distinct names, with exactly 3 templates each, so neither the
  missing-category nor the index-out-of-range branch is taken.
\<close>

theorem getVoicingForSelection_total:
  "(\<exists>v. getVoicingForSelection selection = Some v \<and> length v = 4)
   \<and> length VOICINGS = 12
   \<and> distinct (map fst VOICINGS)
   \<and> map (length \<circ> snd) VOICINGS = replicate 12 3"
proof -
  obtain d s i where sel: "selection = \<lparr>doubling = d, spacing = s, inversion = i\<rparr>"
    by (cases selection) auto
  obtain category index where ci: "selectionToCategory selection = (category, index)"
    by (cases "selectionToCategory selection")
  obtain vs where vs: "map_of VOICINGS category = Some vs" "map length vs = [4, 4, 4]"
    using category_lookup [of d s i] ci sel by auto
  have idx: "index < 3" using inversion_index [of selection] ci by simp
  from vs(2) have len: "length vs = 3" by (metis length_map length_Cons list.size(3) numeral_3_eq_3)
  have "length (vs ! index) = map length vs ! index" using idx len by simp
  also have "\<dots> = 4" using idx unfolding vs(2) by (cases index rule: nat.exhaust) (auto simp: less_Suc_eq numeral_3_eq_3)
  finally have "length (vs ! index) = 4" .
  then have "\<exists>v. getVoicingForSelection selection = Some v \<and> length v = 4"
    using ci vs(1) idx len by (simp add: getVoicingForSelection_def)
  moreover have "length VOICINGS = 12" "map (length \<circ> snd) VOICINGS = replicate 12 3"
    by (simp_all add: VOICINGS_def numeral_eq_Suc)
  ultimately show ?thesis using distinct_categories by blast
qed

subsection \<open>The valid-root search on a root-position close voicing\<close>

lemma getValidRoots_C: "getValidRoots [DNum 1, DNum 3, DNum 5, marked ''1'' 1] Key_C =
  [(1, 48), (1, 60), (2, 50), (2, 62), (3, 52), (4, 53), (5, 55), (6, 57), (7, 59)]"
  by code_simp

text \<open>
  C9. \<open>getValidRoots\<close> applied to the voicing [1, 3, 5, "1'"], which is the root-position
  template of category SB-doubled-close, in key C returns a list containing a pair
  whose root is 1.
\<close>

theorem getValidRoots_SB_close_root_C:
  "1 \<in> set (map fst (getValidRoots [DNum 1, DNum 3, DNum 5, marked ''1'' 1] Key_C))
   \<and> getVoicingForSelection \<lparr>doubling = SB, spacing = Close, inversion = Root\<rparr>
       = Some [DNum 1, DNum 3, DNum 5, marked ''1'' 1]"
proof -
  have "1 \<in> set (map fst (getValidRoots [DNum 1, DNum 3, DNum 5, marked ''1'' 1] Key_C))"
    unfolding getValidRoots_C by simp
  moreover have "getVoicingForSelection \<lparr>doubling = SB, spacing = Close, inversion = Root\<rparr>
       = Some [DNum 1, DNum 3, DNum 5, marked ''1'' 1]"
    by (simp add: getVoicingForSelection_def selectionToCategory_def VOICINGS_def)
  ultimately show ?thesis by (rule conjI)
qed

subsection \<open>The valid-root search\<close>

lemma getValidRoots_octaves_eq:
  "getValidRoots_octaves v k r octave acc = acc @ recorded v k (map (Pair r) [octave..5])"
proof (induction v k r octave acc rule: getValidRoots_octaves.induct)
  case (1 v k r octave acc)
  show ?case
  proof (cases "octave \<le> 5")
    case True
    have up: "[octave..5] = octave # [octave + 1..5]" using True by (simp add: upto_rec1)
    show ?thesis
      apply (subst getValidRoots_octaves.simps)
      apply (simp only: True if_True Let_def)
      apply (subst "1.IH" [OF True refl refl refl refl])
      apply (simp add: up recorded_def candidate_passes_def referenceRootFor_def split: sum.splits)
      done
  next
    case False
    then show ?thesis
      by (subst getValidRoots_octaves.simps) (simp add: recorded_def)
  qed
qed

lemma recorded_append: "recorded v k (xs @ ys) = recorded v k xs @ recorded v k ys"
  by (simp add: recorded_def)

lemma getValidRoots_roots_eq:
  "getValidRoots_roots v k r acc = acc @ recorded v k (List.product [r..7] [1..5])"
proof (induction v k r acc rule: getValidRoots_roots.induct)
  case (1 v k r acc)
  show ?case
  proof (cases "r \<le> 7")
    case True
    have up: "[r..7] = r # [r + 1..7]" using True by (simp add: upto_rec1)
    show ?thesis
      apply (subst getValidRoots_roots.simps)
      apply (simp only: True if_True)
      apply (subst "1.IH" [OF True])
      apply (simp add: up getValidRoots_octaves_eq recorded_append)
      done
  next
    case False
    then show ?thesis
      by (subst getValidRoots_roots.simps) (simp add: recorded_def)
  qed
qed

lemma getValidRoots_eq: "getValidRoots v k = recorded v k candidates"
  by (simp add: getValidRoots_def getValidRoots_roots_eq candidates_def)

lemma referenceRootFor_inj:
  "referenceRootFor key r octave = referenceRootFor key r octave' \<Longrightarrow> octave = octave'"
  by (simp add: referenceRootFor_def noteToMidiPitch_def)

lemma distinct_recorded:
  assumes "distinct cs"
  shows "distinct (recorded v key cs)"
proof -
  have "inj_on (\<lambda>c. (fst c, referenceRootFor key (fst c) (snd c))) (set (filter (candidate_passes v key) cs))"
    by (rule inj_onI) (auto simp: prod_eq_iff dest: referenceRootFor_inj)
  then show ?thesis
    using assms by (simp add: recorded_def distinct_map)
qed

text \<open>
  C3. For every voicing and key, \<open>getValidRoots\<close> evaluates exactly the 35 candidates
  formed by each root scale degree 1 through 7 paired with each octave 1 through 5, all
  of them and in that order, and returns precisely the (root, referenceRoot) pairs of
  the candidates whose four resolved pitches pass \<open>validatePitches\<close> (a candidate
  whose resolution throws is skipped); the same root at different octaves gives
  different entries, and no entry is recorded twice.
\<close>

theorem getValidRoots_exhaustive:
  "getValidRoots v key =
     map (\<lambda>c. (fst c, referenceRootFor key (fst c) (snd c)))
       (filter (candidate_passes v key) candidates)
   \<and> length candidates = 35
   \<and> distinct candidates
   \<and> set candidates = {1..7} \<times> {1..5}
   \<and> distinct (getValidRoots v key)"
proof -
  have "getValidRoots v key =
     map (\<lambda>c. (fst c, referenceRootFor key (fst c) (snd c)))
       (filter (candidate_passes v key) candidates)"
    using getValidRoots_eq [of v key] by (simp add: recorded_def)
  moreover have "length candidates = 35"
    by (simp add: candidates_def)
  moreover have dc: "distinct candidates"
    by (simp add: candidates_def distinct_product)
  moreover have "distinct (getValidRoots v key)"
    unfolding getValidRoots_eq using dc by (rule distinct_recorded)
  moreover have "set candidates = {1..7} \<times> {1..5}"
    by (simp add: candidates_def)
  ultimately show ?thesis by blast
qed

subsection \<open>Generated chords\<close>

lemma getValidRoots_valid:
  assumes "(r, referenceRoot) \<in> set (getValidRoots v key)"
  shows "\<exists>ps. calculatePitches r key v (Some referenceRoot) = Inr ps \<and> validatePitches ps"
proof -
  from assms obtain c where c: "candidate_passes v key c"
    "r = fst c" "referenceRoot = referenceRootFor key (fst c) (snd c)"
    by (auto simp: getValidRoots_eq recorded_def)
  then show ?thesis
    by (auto simp: candidate_passes_def split: sum.splits)
qed

lemma collect_roots_eq:
  "collect_roots category index v key rs acc =
     acc @ map (\<lambda>(r, referenceRoot). (category, index, v, key, r, referenceRoot)) rs"
  by (induction rs arbitrary: acc) auto

lemma collect_keys_eq:
  "collect_keys category index v keys acc =
     acc @ concat (map (\<lambda>key.
       map (\<lambda>(r, referenceRoot). (category, index, v, key, r, referenceRoot))
         (getValidRoots v key)) keys)"
  by (induction keys arbitrary: acc) (auto simp: collect_roots_eq)

lemma collect_voicings_eq:
  "collect_voicings svs keys acc =
     acc @ concat (map (\<lambda>(category, index, v). concat (map (\<lambda>key.
       map (\<lambda>(r, referenceRoot). (category, index, v, key, r, referenceRoot))
         (getValidRoots v key)) keys)) svs)"
  by (induction svs arbitrary: acc) (auto simp: collect_keys_eq)

lemma pool_valid:
  assumes "(category, index, v, key, r, referenceRoot) \<in> set (collect_voicings svs keys [])"
  shows "\<exists>ps. calculatePitches r key v (Some referenceRoot) = Inr ps \<and> validatePitches ps"
proof -
  from assms have "(r, referenceRoot) \<in> set (getValidRoots v key)"
    by (auto simp: collect_voicings_eq)
  then show ?thesis by (rule getValidRoots_valid)
qed

lemma generateRandomChord_valid:
  assumes "generateRandomChord sels keys m random = Inr (Some chord)"
  shows "validatePitches (pitches chord)"
proof -
  let ?pool = "collect_voicings (getVoicingsForSelections sels) keys []"
  let ?i = "\<lfloor>random * real (length ?pool)\<rfloor>"
  from assms have ne: "length sels \<noteq> 0" "length keys \<noteq> 0" "length ?pool \<noteq> 0"
    and rng: "0 \<le> ?i" "?i < int (length ?pool)"
    by (auto simp: generateRandomChord_def Let_def split: if_splits)
  obtain category index v key r referenceRoot
    where sel: "?pool ! nat ?i = (category, index, v, key, r, referenceRoot)"
    by (metis prod_cases6)
  have "?pool ! nat ?i \<in> set ?pool" using rng by (intro nth_mem) linarith
  then obtain ps where ps: "calculatePitches r key v (Some referenceRoot) = Inr ps"
    "validatePitches ps"
    using pool_valid unfolding sel by blast
  have "generateRandomChord sels keys m random =
      Inr (Some \<lparr>root = r, keySignature = key, mode = m, voicing = v, pitches = ps\<rparr>)"
    using ne rng sel ps(1) by (simp add: generateRandomChord_def Let_def)
  with assms have "chord = \<lparr>root = r, keySignature = key, mode = m, voicing = v, pitches = ps\<rparr>"
    by simp
  then show ?thesis using ps(2) by simp
qed

lemma generateChord_valid:
  assumes "generateChord r key m v = Inr (Some chord)"
  shows "validatePitches (pitches chord)"
  using assms
  by (auto simp: generateChord_def isValidCombination_def split: if_splits sum.splits)

lemma generateRandomChord_SB_C:
  "generateRandomChord [\<lparr>doubling = SB, spacing = Close, inversion = Root\<rparr>] [Key_C] Major 0 =
     Inr (Some \<lparr>root = 1, keySignature = Key_C, mode = Major,
                voicing = [DNum 1, DNum 3, DNum 5, marked ''1'' 1],
                pitches = (Fin 60, Fin 55, Fin 52, Fin 48)\<rparr>)"
  by code_simp

lemma generateChord_C:
  "generateChord 1 Key_C Major [DNum 1, DNum 3, DNum 5, marked ''1'' 1] =
     Inr (Some \<lparr>root = 1, keySignature = Key_C, mode = Major,
                voicing = [DNum 1, DNum 3, DNum 5, marked ''1'' 1],
                pitches = (Fin 60, Fin 55, Fin 52, Fin 48)\<rparr>)"
  by code_simp

text \<open>
  C1. Every chord returned (non-null) by \<open>generateRandomChord\<close>, whatever the random
  draw, and every chord returned by \<open>generateChord\<close>, satisfies \<open>validatePitches\<close> on
  its pitches: each of the four pitches, in [soprano, alto, tenor, bass] order, lies
  within its voice's range.
\<close>

theorem generated_chords_in_range:
  "(generateRandomChord sels keys m random = Inr (Some chord) \<longrightarrow> validatePitches (pitches chord))
   \<and> (generateChord r key m' v = Inr (Some chord') \<longrightarrow> validatePitches (pitches chord'))"
  using generateRandomChord_valid generateChord_valid by blast

theorem generated_chords_in_range_witness:
  "generateRandomChord [\<lparr>doubling = SB, spacing = Close, inversion = Root\<rparr>] [Key_C] Major 0 =
     Inr (Some \<lparr>root = 1, keySignature = Key_C, mode = Major,
                voicing = [DNum 1, DNum 3, DNum 5, marked ''1'' 1],
                pitches = (Fin 60, Fin 55, Fin 52, Fin 48)\<rparr>)
   \<and> generateChord 1 Key_C Major [DNum 1, DNum 3, DNum 5, marked ''1'' 1] =
     Inr (Some \<lparr>root = 1, keySignature = Key_C, mode = Major,
                voicing = [DNum 1, DNum 3, DNum 5, marked ''1'' 1],
                pitches = (Fin 60, Fin 55, Fin 52, Fin 48)\<rparr>)
   \<and> validatePitches (Fin 60, Fin 55, Fin 52, Fin 48)"
  using generated_chords_in_range [of "[\<lparr>doubling = SB, spacing = Close, inversion = Root\<rparr>]" "[Key_C]" Major 0
      "\<lparr>root = 1, keySignature = Key_C, mode = Major,
                voicing = [DNum 1, DNum 3, DNum 5, marked ''1'' 1],
                pitches = (Fin 60, Fin 55, Fin 52, Fin 48)\<rparr>"
      1 Key_C Major "[DNum 1, DNum 3, DNum 5, marked ''1'' 1]"
      "\<lparr>root = 1, keySignature = Key_C, mode = Major,
                voicing = [DNum 1, DNum 3, DNum 5, marked ''1'' 1],
                pitches = (Fin 60, Fin 55, Fin 52, Fin 48)\<rparr>"]
    generateRandomChord_SB_C generateChord_C
  by simp

subsection \<open>Empty inputs and an empty pool\<close>

lemma getVoicingsForSelections_loop_eq:
  "getVoicingsForSelections_loop sels acc =
     acc @ List.map_filter (\<lambda>selection.
       case getVoicingForSelection selection of
         None \<Rightarrow> None
       | Some v \<Rightarrow> Some (fst (selectionToCategory selection),
                          snd (selectionToCategory selection), v)) sels"
  by (induction sels arbitrary: acc)
     (auto simp: List.map_filter_simps split: option.splits prod.splits)

lemma map_filter_map_option:
  "map f (List.map_filter g xs) = List.map_filter (\<lambda>x. map_option f (g x)) xs"
  by (induction xs) (auto simp: List.map_filter_simps split: option.splits)

lemma getVoicingsForSelections_voicings:
  "map (\<lambda>(category, index, v). v) (getVoicingsForSelections sels) =
     List.map_filter getVoicingForSelection sels"
proof -
  have "(\<lambda>x. map_option (\<lambda>(category, index, v). v)
           (case getVoicingForSelection x of None \<Rightarrow> None
            | Some v \<Rightarrow> Some (fst (selectionToCategory x), snd (selectionToCategory x), v)))
        = getVoicingForSelection"
    by (auto split: option.splits)
  then show ?thesis
    by (simp add: getVoicingsForSelections_def getVoicingsForSelections_loop_eq
        map_filter_map_option)
qed

text \<open>
  C4. \<open>generateRandomChord\<close> returns null, and does not throw, whenever the selections
  list is empty, the keys list is empty, or the accumulated pool of valid combinations
  is empty; the voicings it searches are those of the selections whose catalog lookup
  succeeds, in order, a selection whose lookup fails being dropped without an error.
\<close>

theorem generateRandomChord_null:
  "((enabledSelections = [] \<or> enabledKeys = [] \<or>
      collect_voicings (getVoicingsForSelections enabledSelections) enabledKeys [] = [])
     \<longrightarrow> generateRandomChord enabledSelections enabledKeys m random = Inr None)
   \<and> map (\<lambda>(category, index, v). v) (getVoicingsForSelections enabledSelections) =
       List.map_filter getVoicingForSelection enabledSelections"
proof -
  have "generateRandomChord enabledSelections enabledKeys m random = Inr None"
    if "enabledSelections = [] \<or> enabledKeys = [] \<or>
      collect_voicings (getVoicingsForSelections enabledSelections) enabledKeys [] = []"
    using that by (auto simp: generateRandomChord_def Let_def)
  then show ?thesis using getVoicingsForSelections_voicings by blast
qed

theorem generateRandomChord_null_witness:
  "generateRandomChord [] [Key_C] Major 0 = Inr None
   \<and> generateRandomChord [\<lparr>doubling = SB, spacing = Close, inversion = Root\<rparr>] [] Major 0 = Inr None"
  using generateRandomChord_null [of "[]" "[Key_C]" Major 0]
    generateRandomChord_null [of "[\<lparr>doubling = SB, spacing = Close, inversion = Root\<rparr>]" "[]" Major 0]
  by simp

subsection \<open>Diatonic transposition\<close>

lemma wrap_index:
  fixes t :: int
  assumes "0 \<le> t" "t < 7"
  shows "(t < (t + 6) mod 7) = (t = 0)"
proof -
  from assms have "t = 0 \<or> t = 1 \<or> t = 2 \<or> t = 3 \<or> t = 4 \<or> t = 5 \<or> t = 6" by arith
  then show ?thesis by auto
qed

lemma key_C_iff: "(indexOf (map letter_name NOTE_LETTERS) (hd (key_name k)) = 0) = (k = Key_C)"
  by (cases k) (simp_all add: NOTE_LETTERS_def)

lemma transposeChord_up_7:
  assumes "length (voicing cur) = 4" "root cur = 7"
  shows "\<exists>c. transposeChord Up (Some cur) = Inr (Some c) \<and> root c = 1 \<and>
     octaveOffset c = Some ((case octaveOffset cur of None \<Rightarrow> 0 | Some n \<Rightarrow> n)
                             + (if keySignature cur = Key_C then 1 else 0))"
proof -
  let ?t = "indexOf (map letter_name NOTE_LETTERS) (hd (key_name (keySignature cur)))"
  have t: "0 \<le> ?t" "?t < 7" using tonicIndex_range by simp_all
  have new: "indexOf NOTE_LETTERS (getNoteLetter 1 (keySignature cur)) = ?t"
    using t by (simp add: indexOf_getNoteLetter [OF small_degree(1,2)])
  have old: "indexOf NOTE_LETTERS (getNoteLetter 7 (keySignature cur)) = (?t + 6) mod 7"
    by (simp add: indexOf_getNoteLetter [OF small_degree(3,4)] add.commute)
  have cmp: "(?t < (?t + 6) mod 7) = (keySignature cur = Key_C)"
    using wrap_index [OF t] key_C_iff [of "keySignature cur"] by simp
  obtain ps where ps: "calculatePitches 1 (keySignature cur) (voicing cur) None = Inr ps"
    using assms(1) by (simp add: calculatePitches_def Let_def)
  obtain p0 p1 p2 p3 where p: "ps = (p0, p1, p2, p3)" by (cases ps) auto
  have rem: "js_rem 7 7 + 1 = 1" by (simp add: js_rem_def)
  show ?thesis
    using assms(2) ps p new old cmp rem
    by (auto simp: transposeChord_def Let_def split: option.splits)
qed

lemma transposeChord_down_1:
  assumes "length (voicing cur) = 4" "root cur = 1"
  shows "\<exists>c. transposeChord Down (Some cur) = Inr (Some c) \<and> root c = 7 \<and>
     octaveOffset c = Some ((case octaveOffset cur of None \<Rightarrow> 0 | Some n \<Rightarrow> n)
                             - (if keySignature cur = Key_C then 1 else 0))"
proof -
  let ?t = "indexOf (map letter_name NOTE_LETTERS) (hd (key_name (keySignature cur)))"
  have t: "0 \<le> ?t" "?t < 7" using tonicIndex_range by simp_all
  have old: "indexOf NOTE_LETTERS (getNoteLetter 1 (keySignature cur)) = ?t"
    using t by (simp add: indexOf_getNoteLetter [OF small_degree(1,2)])
  have new: "indexOf NOTE_LETTERS (getNoteLetter 7 (keySignature cur)) = (?t + 6) mod 7"
    by (simp add: indexOf_getNoteLetter [OF small_degree(3,4)] add.commute)
  have cmp: "(?t < (?t + 6) mod 7) = (keySignature cur = Key_C)"
    using wrap_index [OF t] key_C_iff [of "keySignature cur"] by simp
  obtain ps where ps: "calculatePitches 7 (keySignature cur) (voicing cur) None = Inr ps"
    using assms(1) by (simp add: calculatePitches_def Let_def)
  obtain p0 p1 p2 p3 where p: "ps = (p0, p1, p2, p3)" by (cases ps) auto
  show ?thesis
    using assms(2) ps p new old cmp
    by (auto simp: transposeChord_def Let_def split: option.splits)
qed

text \<open>
  C2. For every key signature and every current chord with a four-entry voicing, the step
  up at root 7 wraps the root to 1 and the step down at root 1 wraps it to 7. The
  octave-offset counter follows the note letters, not the degrees: it goes up by one
  (down by one for the step down) exactly when the key is C, the one key whose tonic
  letter is C, so that the root passes between B and C; in the other twelve keys the
  counter keeps its value.
\<close>

theorem transposeChord_wrap:
  "(length (voicing cur) = 4 \<and> root cur = 7 \<longrightarrow>
      (\<exists>c. transposeChord Up (Some cur) = Inr (Some c) \<and> root c = 1 \<and>
         octaveOffset c = Some ((case octaveOffset cur of None \<Rightarrow> 0 | Some n \<Rightarrow> n)
                                 + (if keySignature cur = Key_C then 1 else 0))))
   \<and> (length (voicing cur) = 4 \<and> root cur = 1 \<longrightarrow>
      (\<exists>c. transposeChord Down (Some cur) = Inr (Some c) \<and> root c = 7 \<and>
         octaveOffset c = Some ((case octaveOffset cur of None \<Rightarrow> 0 | Some n \<Rightarrow> n)
                                 - (if keySignature cur = Key_C then 1 else 0))))"
  using transposeChord_up_7 [of cur] transposeChord_down_1 [of cur] by blast

theorem transposeChord_wrap_witness:
  "(\<exists>c. transposeChord Up
          (Some \<lparr>root = 7, keySignature = Key_C, mode = Major,
                 voicing = [DNum 1, DNum 3, DNum 5, marked ''1'' 1],
                 pitches = (Fin 71, Fin 65, Fin 62, Fin 59), octaveOffset = Some 0\<rparr>)
          = Inr (Some c) \<and> root c = 1 \<and> octaveOffset c = Some 1)
   \<and> (\<exists>c. transposeChord Down
          (Some \<lparr>root = 1, keySignature = Key_C, mode = Major,
                 voicing = [DNum 1, DNum 3, DNum 5, marked ''1'' 1],
                 pitches = (Fin 60, Fin 55, Fin 52, Fin 48), octaveOffset = Some 0\<rparr>)
          = Inr (Some c) \<and> root c = 7 \<and> octaveOffset c = Some (- 1))"
  using transposeChord_wrap [of "\<lparr>root = 7, keySignature = Key_C, mode = Major,
                 voicing = [DNum 1, DNum 3, DNum 5, marked ''1'' 1],
                 pitches = (Fin 71, Fin 65, Fin 62, Fin 59), octaveOffset = Some 0\<rparr>"]
    transposeChord_wrap [of "\<lparr>root = 1, keySignature = Key_C, mode = Major,
                 voicing = [DNum 1, DNum 3, DNum 5, marked ''1'' 1],
                 pitches = (Fin 60, Fin 55, Fin 52, Fin 48), octaveOffset = Some 0\<rparr>"]
  by simp

text \<open>
  In key G the root of degree 7 is F sharp and the root of degree 1 is G: the step up from
  degree 7 and the step down from degree 1 wrap the degree and leave the counter at 0.
\<close>

theorem transposeChord_wrap_key_G_counterexample:
  "transposeChord Up
     (Some \<lparr>root = 7, keySignature = Key_G, mode = Major,
            voicing = [DNum 1, DNum 3, DNum 5, marked ''1'' 1],
            pitches = (Fin 66, Fin 60, Fin 57, Fin 54), octaveOffset = Some 0\<rparr>)
   = Inr (Some \<lparr>root = 1, keySignature = Key_G, mode = Major,
            voicing = [DNum 1, DNum 3, DNum 5, marked ''1'' 1],
            pitches = (Fin 67, Fin 62, Fin 59, Fin 55), octaveOffset = Some 0\<rparr>)
   \<and> transposeChord Down
     (Some \<lparr>root = 1, keySignature = Key_G, mode = Major,
            voicing = [DNum 1, DNum 3, DNum 5, marked ''1'' 1],
            pitches = (Fin 67, Fin 62, Fin 59, Fin 55), octaveOffset = Some 0\<rparr>)
   = Inr (Some \<lparr>root = 7, keySignature = Key_G, mode = Major,
            voicing = [DNum 1, DNum 3, DNum 5, marked ''1'' 1],
            pitches = (Fin 66, Fin 60, Fin 57, Fin 54), octaveOffset = Some 0\<rparr>)"
  by code_simp

end
